theory Spec2Isabelle
  imports Main
begin

section \<open>UCacheBox: the data model\<close>

text \<open>
  The registry of \<^verbatim>\<open>CacheBox.h\<close> / \<^verbatim>\<open>CacheBox.cpp\<close>. A live object is identified by a
  number; a C++ pointer that may be \<^verbatim>\<open>nullptr\<close> is an option (\<open>None\<close> is
  \<^verbatim>\<open>nullptr\<close>). A soft pointer carries an asset path, the empty path being the null
  reference.
\<close>

type_synonym UObject = nat
type_synonym UObjectPtr = "UObject option"
type_synonym FSoftObjectPath = string

datatype TSoftObjectPtr = TSoftObjectPtr (ObjectPath: FSoftObjectPath)
datatype TSoftClassPtr = TSoftClassPtr (ClassPath: FSoftObjectPath)

text \<open>\<^verbatim>\<open>TWeakObjectPtr<UObject>\<close>: the object it was made from, or nothing.\<close>

type_synonym TWeakObjectPtr = "UObject option"

text \<open>The native classes that occur as \<^verbatim>\<open>T::StaticClass()\<close> or as the target of a \<^verbatim>\<open>Cast\<close>.\<close>

datatype StaticClass =
    UObject_Class
  | UClass_Class
  | UUserWidget_Class
  | AActor_Class
  | Native_Class nat

text \<open>
  What the engine answers at one moment. The registry only calls into the engine; every
  operation below takes the engine as it is at the time of the call.
\<close>

record Engine =
  ResolveObject :: "FSoftObjectPath \<Rightarrow> UObjectPtr"
  LoadObject :: "FSoftObjectPath \<Rightarrow> UObjectPtr"
  GetPathName :: "UObject \<Rightarrow> FSoftObjectPath"
  IsA :: "UObject \<Rightarrow> StaticClass \<Rightarrow> bool"
  IsChildOf :: "UObject \<Rightarrow> StaticClass \<Rightarrow> bool"
  IsValidObject :: "UObject \<Rightarrow> bool"
  GetWorld :: bool
  SpawnActor :: "UObject \<Rightarrow> UObjectPtr"

text \<open>\<^verbatim>\<open>FStreamableDelegate\<close> as the caller hands it in: unbound, or bound to a callback.\<close>

datatype FStreamableDelegate = Unbound | BoundTo nat

text \<open>
  The lambdas the four \<^verbatim>\<open>RequestAsyncLoad\<close> overloads build, with what each captures
  (\<^verbatim>\<open>this\<close> apart): the template argument and the soft pointer for the single forms, the
  filtered path array for the array forms, and always \<^verbatim>\<open>DelegateToCall\<close>.
\<close>

datatype CompletionLambda =
    ObjectLambda StaticClass TSoftObjectPtr FStreamableDelegate
  | ClassLambda StaticClass TSoftClassPtr FStreamableDelegate
  | ObjectArrayLambda "FSoftObjectPath list" FStreamableDelegate
  | ClassArrayLambda "FSoftObjectPath list" FStreamableDelegate

text \<open>
  How a lambda is bound into the delegate given to the streamable manager.
  \<^verbatim>\<open>BindWeakLambda(this, ...)\<close> keeps a weak pointer to the registry; \<^verbatim>\<open>BindLambda\<close> is
  the engine's unguarded binding, which the registry never uses.
\<close>

datatype StreamableBinding = BindWeakLambda CompletionLambda | BindLambda CompletionLambda

record StreamableRequest =
  TargetsToStream :: "FSoftObjectPath list"
  DelegateToCall :: StreamableBinding

text \<open>What the engine is asked to do to an object when it is torn down.\<close>

datatype TeardownAction = RemoveFromParent | Destroy | ConditionalBeginDestroy | MarkAsGarbage

text \<open>
  One teardown call, with the content of \<open>CreatedObjects\<close> at the moment of the call:
  this is what code running inside the teardown (a re-entrant call) would find there.
\<close>

record TeardownCall =
  action :: TeardownAction
  target :: UObject
  members_seen :: "UObjectPtr list"

text \<open>
  The registry. The four \<^verbatim>\<open>TSet\<close> members are lists without repetition (see
  \<open>TSet_Emplace\<close>); \<open>Streamable\<close> holds the requests in flight in the
  \<^verbatim>\<open>FStreamableManager\<close> member; \<open>bBeginDestroyed\<close> is the object's own
  \<^verbatim>\<open>RF_BeginDestroyed\<close> flag. The last three fields record the effects on the outside:
  the caller callbacks that ran, the teardown calls made, the actors spawned into the world.
\<close>

record UCacheBox =
  CreatedObjects :: "UObjectPtr list"
  LoadedObjects :: "UObjectPtr list"
  LoadedSoftObjects :: "TSoftObjectPtr list"
  LoadedSoftClasses :: "TSoftClassPtr list"
  Streamable :: "StreamableRequest list"
  bBeginDestroyed :: bool
  Executed :: "nat list"
  Teardowns :: "TeardownCall list"
  Spawned :: "UObject list"

section \<open>Engine primitives\<close>

text \<open>
  \<^verbatim>\<open>TSet::Emplace\<close> keeps one entry per key, \<^verbatim>\<open>TSet::Remove\<close> removes the key,
  \<^verbatim>\<open>TSet::Empty\<close> is the empty list. The iteration order of a \<^verbatim>\<open>TSet\<close> is not
  specified; the list order stands for whichever order the engine uses.
\<close>

definition TSet_Emplace :: "'a \<Rightarrow> 'a list \<Rightarrow> 'a list" where
  "TSet_Emplace x xs = (if x \<in> set xs then xs else xs @ [x])"

definition TSet_Remove :: "'a \<Rightarrow> 'a list \<Rightarrow> 'a list" where
  "TSet_Remove x xs = removeAll x xs"

text \<open>Every object is a \<^verbatim>\<open>UObject\<close>; for any other class the engine is asked.\<close>

definition InstanceOf :: "Engine \<Rightarrow> UObject \<Rightarrow> StaticClass \<Rightarrow> bool" where
  "InstanceOf e Obj T = (T = UObject_Class \<or> IsA e Obj T)"

definition ChildOf :: "Engine \<Rightarrow> UObject \<Rightarrow> StaticClass \<Rightarrow> bool" where
  "ChildOf e Cls T = (T = UObject_Class \<or> IsChildOf e Cls T)"

definition Cast :: "Engine \<Rightarrow> StaticClass \<Rightarrow> UObjectPtr \<Rightarrow> UObjectPtr" where
  "Cast e T Ptr =
     (case Ptr of None \<Rightarrow> None
      | Some Obj \<Rightarrow> if InstanceOf e Obj T then Some Obj else None)"

text \<open>\<^verbatim>\<open>IsValid(Ptr)\<close>: not null and not garbage.\<close>

definition IsValid :: "Engine \<Rightarrow> UObjectPtr \<Rightarrow> bool" where
  "IsValid e Ptr = (case Ptr of None \<Rightarrow> False | Some Obj \<Rightarrow> IsValidObject e Obj)"

definition Weak_Get :: "Engine \<Rightarrow> TWeakObjectPtr \<Rightarrow> UObjectPtr" where
  "Weak_Get e W =
     (case W of None \<Rightarrow> None
      | Some Obj \<Rightarrow> if IsValidObject e Obj then Some Obj else None)"

definition Weak_IsValid :: "Engine \<Rightarrow> TWeakObjectPtr \<Rightarrow> bool" where
  "Weak_IsValid e W = (Weak_Get e W \<noteq> None)"

text \<open>\<^verbatim>\<open>TSoftObjectPtr<T>\<close>: null test, in-memory lookup, blocking load, construction from an object.\<close>

definition SoftObject_IsNull :: "TSoftObjectPtr \<Rightarrow> bool" where
  "SoftObject_IsNull P = (ObjectPath P = [])"

definition SoftObject_Get :: "Engine \<Rightarrow> StaticClass \<Rightarrow> TSoftObjectPtr \<Rightarrow> UObjectPtr" where
  "SoftObject_Get e T P = Cast e T (ResolveObject e (ObjectPath P))"

definition SoftObject_IsValid :: "Engine \<Rightarrow> StaticClass \<Rightarrow> TSoftObjectPtr \<Rightarrow> bool" where
  "SoftObject_IsValid e T P = (SoftObject_Get e T P \<noteq> None)"

definition SoftObject_LoadSynchronous :: "Engine \<Rightarrow> StaticClass \<Rightarrow> TSoftObjectPtr \<Rightarrow> UObjectPtr" where
  "SoftObject_LoadSynchronous e T P = Cast e T (LoadObject e (ObjectPath P))"

definition SoftObject_of :: "Engine \<Rightarrow> UObject \<Rightarrow> TSoftObjectPtr" where
  "SoftObject_of e Obj = TSoftObjectPtr (GetPathName e Obj)"

text \<open>\<^verbatim>\<open>TSoftClassPtr<T>\<close>: the same, the object found having to be a class derived from \<open>T\<close>.\<close>

definition AsClass :: "Engine \<Rightarrow> StaticClass \<Rightarrow> UObjectPtr \<Rightarrow> UObjectPtr" where
  "AsClass e T Ptr =
     (case Cast e UClass_Class Ptr of None \<Rightarrow> None
      | Some Cls \<Rightarrow> if ChildOf e Cls T then Some Cls else None)"

definition SoftClass_IsNull :: "TSoftClassPtr \<Rightarrow> bool" where
  "SoftClass_IsNull P = (ClassPath P = [])"

definition SoftClass_Get :: "Engine \<Rightarrow> StaticClass \<Rightarrow> TSoftClassPtr \<Rightarrow> UObjectPtr" where
  "SoftClass_Get e T P = AsClass e T (ResolveObject e (ClassPath P))"

definition SoftClass_IsValid :: "Engine \<Rightarrow> StaticClass \<Rightarrow> TSoftClassPtr \<Rightarrow> bool" where
  "SoftClass_IsValid e T P = (SoftClass_Get e T P \<noteq> None)"

definition SoftClass_LoadSynchronous :: "Engine \<Rightarrow> StaticClass \<Rightarrow> TSoftClassPtr \<Rightarrow> UObjectPtr" where
  "SoftClass_LoadSynchronous e T P = AsClass e T (LoadObject e (ClassPath P))"

definition SoftClass_of :: "Engine \<Rightarrow> UObject \<Rightarrow> TSoftClassPtr" where
  "SoftClass_of e Obj = TSoftClassPtr (GetPathName e Obj)"

text \<open>\<^verbatim>\<open>FStreamableDelegate::ExecuteIfBound\<close>: the callback runs when there is one.\<close>

definition ExecuteIfBound :: "FStreamableDelegate \<Rightarrow> UCacheBox \<Rightarrow> UCacheBox" where
  "ExecuteIfBound D box =
     (case D of Unbound \<Rightarrow> box
      | BoundTo c \<Rightarrow> box\<lparr>Executed := Executed box @ [c]\<rparr>)"

text \<open>A teardown call on \<open>Obj\<close>, made while the registry is in state \<open>box\<close>.\<close>

definition Teardown :: "TeardownAction \<Rightarrow> UObject \<Rightarrow> UCacheBox \<Rightarrow> UCacheBox" where
  "Teardown a Obj box =
     box\<lparr>Teardowns := Teardowns box @
            [\<lparr>action = a, target = Obj, members_seen = CreatedObjects box\<rparr>]\<rparr>"

section \<open>Synchronous load\<close>

text \<open>\<^verbatim>\<open>T* LoadSynchronous(TSoftObjectPtr<T> SoftObject)\<close>, CacheBox.h 52-69.\<close>

definition LoadSynchronous_Object ::
  "Engine \<Rightarrow> StaticClass \<Rightarrow> UCacheBox \<Rightarrow> TSoftObjectPtr \<Rightarrow> UObjectPtr \<times> UCacheBox" where
  "LoadSynchronous_Object e T box SoftObject =
     (if \<not> SoftObject_IsNull SoftObject then
        (case Cast e T (SoftObject_LoadSynchronous e T SoftObject) of
           Some LoadedObject \<Rightarrow>
             (Some LoadedObject,
              box\<lparr>LoadedSoftObjects := TSet_Emplace (SoftObject_of e LoadedObject) (LoadedSoftObjects box),
                  LoadedObjects := TSet_Emplace (Some LoadedObject) (LoadedObjects box)\<rparr>)
         | None \<Rightarrow> (None, box))
      else (None, box))"

text \<open>\<^verbatim>\<open>UClass* LoadSynchronous(TSoftClassPtr<T> SoftClass)\<close>, CacheBox.h 85-104.\<close>

definition LoadSynchronous_Class ::
  "Engine \<Rightarrow> StaticClass \<Rightarrow> UCacheBox \<Rightarrow> TSoftClassPtr \<Rightarrow> UObjectPtr \<times> UCacheBox" where
  "LoadSynchronous_Class e T box SoftClass =
     (if \<not> SoftClass_IsNull SoftClass then
        (case SoftClass_LoadSynchronous e T SoftClass of
           Some LoadedClass \<Rightarrow>
             if ChildOf e LoadedClass T then
               (Some LoadedClass,
                box\<lparr>LoadedSoftClasses := TSet_Emplace (SoftClass_of e LoadedClass) (LoadedSoftClasses box),
                    LoadedObjects := TSet_Emplace (Some LoadedClass) (LoadedObjects box)\<rparr>)
             else (None, box)
         | None \<Rightarrow> (None, box))
      else (None, box))"

section \<open>Destruction and unload\<close>

text \<open>
  The body of the loop of \<^verbatim>\<open>DestroyAllObjects\<close>, CacheBox.cpp 167-182. The engine's
  answers are those of the moment \<^verbatim>\<open>DestroyAllObjects\<close> is called: what the teardown of
  one member does to the validity of another is not followed.
\<close>

definition DestroyAllObjects_step :: "Engine \<Rightarrow> UObjectPtr \<Rightarrow> UCacheBox \<Rightarrow> UCacheBox" where
  "DestroyAllObjects_step e CreatedObject box =
     (if IsValid e CreatedObject then
        (case Cast e UUserWidget_Class CreatedObject of
           Some UI \<Rightarrow> Teardown RemoveFromParent UI box
         | None \<Rightarrow>
            (case Cast e AActor_Class CreatedObject of
               Some Actor \<Rightarrow> Teardown Destroy Actor box
             | None \<Rightarrow>
                (case CreatedObject of
                   Some Obj \<Rightarrow> Teardown ConditionalBeginDestroy Obj box
                 | None \<Rightarrow> box)))
      else box)"

text \<open>\<^verbatim>\<open>DestroyAllObjects\<close>, CacheBox.cpp 163-187: the loop, then \<^verbatim>\<open>CreatedObjects.Empty()\<close>.\<close>

definition DestroyAllObjects :: "Engine \<Rightarrow> UCacheBox \<Rightarrow> UCacheBox" where
  "DestroyAllObjects e box =
     (fold (DestroyAllObjects_step e) (CreatedObjects box) box)\<lparr>CreatedObjects := []\<rparr>"

text \<open>
  \<^verbatim>\<open>UnloadAllObjects\<close>, CacheBox.cpp 189-207. The two loops reset a copy of each soft
  pointer (the loop variable is taken by value) and change nothing in the registry.
\<close>

definition UnloadAllObjects :: "UCacheBox \<Rightarrow> UCacheBox" where
  "UnloadAllObjects box =
     box\<lparr>LoadedObjects := [], LoadedSoftObjects := [], LoadedSoftClasses := []\<rparr>"

text \<open>\<^verbatim>\<open>DestroyObject\<close>, CacheBox.cpp 209-237.\<close>

definition DestroyObject :: "Engine \<Rightarrow> UCacheBox \<Rightarrow> TWeakObjectPtr \<Rightarrow> bool \<Rightarrow> UCacheBox" where
  "DestroyObject e box InObject bPure =
     (let box1 = box\<lparr>CreatedObjects := TSet_Remove (Weak_Get e InObject) (CreatedObjects box)\<rparr>
      in if Weak_IsValid e InObject then
           (case Cast e UUserWidget_Class (Weak_Get e InObject) of
              Some UI \<Rightarrow> Teardown RemoveFromParent UI box1
            | None \<Rightarrow>
               (case Cast e AActor_Class (Weak_Get e InObject) of
                  Some Actor \<Rightarrow> Teardown Destroy Actor box1
                | None \<Rightarrow>
                   (case Weak_Get e InObject of
                      Some Obj \<Rightarrow>
                        if bPure then Teardown ConditionalBeginDestroy Obj box1
                        else Teardown MarkAsGarbage Obj box1
                    | None \<Rightarrow> box1)))
         else box1)"

text \<open>
  \<^verbatim>\<open>UnloadObject\<close>, CacheBox.cpp 239-251. \<^verbatim>\<open>InObject.Reset()\<close> resets the parameter, a
  copy of the caller's soft pointer, and changes nothing in the registry.
\<close>

definition UnloadObject :: "Engine \<Rightarrow> UCacheBox \<Rightarrow> TSoftObjectPtr \<Rightarrow> UCacheBox" where
  "UnloadObject e box InObject =
     (if SoftObject_IsValid e UObject_Class InObject then
        box\<lparr>LoadedObjects := TSet_Remove (SoftObject_Get e UObject_Class InObject) (LoadedObjects box),
            LoadedSoftObjects := TSet_Remove InObject (LoadedSoftObjects box)\<rparr>
      else box)"

text \<open>\<^verbatim>\<open>UnloadClass\<close>, CacheBox.cpp 253-264.\<close>

definition UnloadClass :: "Engine \<Rightarrow> UCacheBox \<Rightarrow> TSoftClassPtr \<Rightarrow> UCacheBox" where
  "UnloadClass e box InObject =
     (if SoftClass_IsValid e UObject_Class InObject then
        box\<lparr>LoadedSoftClasses := TSet_Remove InObject (LoadedSoftClasses box)\<rparr>
      else box)"

text \<open>
  \<^verbatim>\<open>BeginDestroy\<close>, CacheBox.cpp 26-32, and \<^verbatim>\<open>DestroyBox\<close>, CacheBox.cpp 34-39.
  \<^verbatim>\<open>ConditionalBeginDestroy\<close> is the engine's: it sets \<^verbatim>\<open>RF_BeginDestroyed\<close> and calls
  \<^verbatim>\<open>BeginDestroy\<close> when the flag was not set, and reports whether it did.
\<close>

definition BeginDestroy :: "Engine \<Rightarrow> UCacheBox \<Rightarrow> UCacheBox" where
  "BeginDestroy e box = UnloadAllObjects (DestroyAllObjects e box)"

definition ConditionalBeginDestroy_this :: "Engine \<Rightarrow> UCacheBox \<Rightarrow> bool \<times> UCacheBox" where
  "ConditionalBeginDestroy_this e box =
     (if \<not> bBeginDestroyed box then (True, BeginDestroy e (box\<lparr>bBeginDestroyed := True\<rparr>))
      else (False, box))"

definition DestroyBox :: "Engine \<Rightarrow> UCacheBox \<Rightarrow> bool \<times> UCacheBox" where
  "DestroyBox e box = ConditionalBeginDestroy_this e box"

section \<open>Asynchronous load\<close>

text \<open>
  Modelled from the spec: the streaming service (the engine's \<^verbatim>\<open>FStreamableManager\<close>, an
  external collaborator). \<^verbatim>\<open>loadAsync(pathList, onBatchComplete)\<close> takes the request and
  returns; \<open>onBatchComplete\<close> is invoked exactly once, later, when every path has been
  attempted. \<open>Streamable_RequestAsyncLoad\<close> puts the request in flight and
  \<open>Streamable_Complete\<close> is the service signalling completion of everything in flight,
  executing each request's delegate once.
\<close>

definition Streamable_RequestAsyncLoad ::
  "FSoftObjectPath list \<Rightarrow> StreamableBinding \<Rightarrow> UCacheBox \<Rightarrow> UCacheBox" where
  "Streamable_RequestAsyncLoad Paths D box =
     box\<lparr>Streamable := Streamable box @ [\<lparr>TargetsToStream = Paths, DelegateToCall = D\<rparr>]\<rparr>"

text \<open>The loop bodies of the two array lambdas, CacheBox.cpp 92-100 and 132-140.\<close>

definition ObjectArrayLambda_step :: "Engine \<Rightarrow> FSoftObjectPath \<Rightarrow> UCacheBox \<Rightarrow> UCacheBox" where
  "ObjectArrayLambda_step e LoadedObjectPath box =
     (case Cast e UObject_Class (ResolveObject e LoadedObjectPath) of
        Some LoadedObject \<Rightarrow>
          box\<lparr>LoadedSoftObjects := TSet_Emplace (SoftObject_of e LoadedObject) (LoadedSoftObjects box),
              LoadedObjects := TSet_Emplace (Some LoadedObject) (LoadedObjects box)\<rparr>
      | None \<Rightarrow> box)"

definition ClassArrayLambda_step :: "Engine \<Rightarrow> FSoftObjectPath \<Rightarrow> UCacheBox \<Rightarrow> UCacheBox" where
  "ClassArrayLambda_step e SoftObjectPath box =
     (case Cast e UObject_Class (ResolveObject e SoftObjectPath) of
        Some LoadedObject \<Rightarrow>
          box\<lparr>LoadedSoftClasses := TSet_Emplace (SoftClass_of e LoadedObject) (LoadedSoftClasses box),
              LoadedObjects := TSet_Emplace (Some LoadedObject) (LoadedObjects box)\<rparr>
      | None \<Rightarrow> box)"

text \<open>
  The bodies of the four lambdas: CacheBox.h 129-137 and 168-178, CacheBox.cpp 90-102 and
  130-142. \<^verbatim>\<open>ensure(c)\<close> has the value of \<open>c\<close>.
\<close>

fun Lambda_body :: "Engine \<Rightarrow> CompletionLambda \<Rightarrow> UCacheBox \<Rightarrow> UCacheBox" where
  "Lambda_body e (ObjectLambda T SoftObject D) box =
     ExecuteIfBound D
       (case Cast e T (SoftObject_Get e T SoftObject) of
          Some LoadedObject \<Rightarrow>
            box\<lparr>LoadedSoftObjects := TSet_Emplace (SoftObject_of e LoadedObject) (LoadedSoftObjects box),
                LoadedObjects := TSet_Emplace (Some LoadedObject) (LoadedObjects box)\<rparr>
        | None \<Rightarrow> box)"
| "Lambda_body e (ClassLambda T SoftClass D) box =
     ExecuteIfBound D
       (if SoftClass_IsValid e T SoftClass then
          (case SoftClass_Get e T SoftClass of
             Some Cls \<Rightarrow>
               if ChildOf e Cls T then
                 box\<lparr>LoadedSoftClasses := TSet_Emplace SoftClass (LoadedSoftClasses box)\<rparr>
               else box
           | None \<Rightarrow> box)
        else box)"
| "Lambda_body e (ObjectArrayLambda SoftObjectPathTemp D) box =
     ExecuteIfBound D (fold (ObjectArrayLambda_step e) SoftObjectPathTemp box)"
| "Lambda_body e (ClassArrayLambda SoftClassPathTemp D) box =
     ExecuteIfBound D (fold (ClassArrayLambda_step e) SoftClassPathTemp box)"

text \<open>
  Executing the delegate given to the streaming service. A weak lambda runs only when the
  weak pointer to the registry is still valid (\<open>this_valid\<close>); otherwise the delegate counts
  as unbound and nothing runs.
\<close>

definition Binding_ExecuteIfBound :: "Engine \<Rightarrow> bool \<Rightarrow> StreamableBinding \<Rightarrow> UCacheBox \<Rightarrow> UCacheBox" where
  "Binding_ExecuteIfBound e this_valid D box =
     (case D of
        BindWeakLambda L \<Rightarrow> if this_valid then Lambda_body e L box else box
      | BindLambda L \<Rightarrow> Lambda_body e L box)"

definition Streamable_Complete :: "Engine \<Rightarrow> bool \<Rightarrow> UCacheBox \<Rightarrow> UCacheBox" where
  "Streamable_Complete e this_valid box =
     fold (\<lambda>R. Binding_ExecuteIfBound e this_valid (DelegateToCall R))
       (Streamable box) (box\<lparr>Streamable := []\<rparr>)"

text \<open>\<^verbatim>\<open>RequestAsyncLoad(TSoftObjectPtr<T>, const FStreamableDelegate&)\<close>, CacheBox.h 120-144.\<close>

definition RequestAsyncLoad_Object ::
  "StaticClass \<Rightarrow> UCacheBox \<Rightarrow> TSoftObjectPtr \<Rightarrow> FStreamableDelegate \<Rightarrow> UCacheBox" where
  "RequestAsyncLoad_Object T box SoftObject D =
     (if \<not> SoftObject_IsNull SoftObject then
        Streamable_RequestAsyncLoad [ObjectPath SoftObject]
          (BindWeakLambda (ObjectLambda T SoftObject D)) box
      else ExecuteIfBound D box)"

text \<open>\<^verbatim>\<open>RequestAsyncLoad(TSoftClassPtr<T>, const FStreamableDelegate&)\<close>, CacheBox.h 160-185.\<close>

definition RequestAsyncLoad_Class ::
  "StaticClass \<Rightarrow> UCacheBox \<Rightarrow> TSoftClassPtr \<Rightarrow> FStreamableDelegate \<Rightarrow> UCacheBox" where
  "RequestAsyncLoad_Class T box SoftClass D =
     (if \<not> SoftClass_IsNull SoftClass then
        Streamable_RequestAsyncLoad [ClassPath SoftClass]
          (BindWeakLambda (ClassLambda T SoftClass D)) box
      else ExecuteIfBound D box)"

text \<open>
  \<^verbatim>\<open>RequestAsyncLoad(const TArray<TSoftObjectPtr<UObject>>&, const FStreamableDelegate&)\<close>,
  CacheBox.cpp 71-109: the null entries are skipped, the paths of the others collected.
\<close>

definition RequestAsyncLoad_Objects ::
  "UCacheBox \<Rightarrow> TSoftObjectPtr list \<Rightarrow> FStreamableDelegate \<Rightarrow> UCacheBox" where
  "RequestAsyncLoad_Objects box SoftObjectArray D =
     (let SoftObjectPathTemp =
            map ObjectPath (filter (\<lambda>ObjectsToLoad. \<not> SoftObject_IsNull ObjectsToLoad) SoftObjectArray)
      in if SoftObjectPathTemp \<noteq> [] then
           Streamable_RequestAsyncLoad SoftObjectPathTemp
             (BindWeakLambda (ObjectArrayLambda SoftObjectPathTemp D)) box
         else ExecuteIfBound D box)"

text \<open>
  \<^verbatim>\<open>RequestAsyncLoad(const TArray<TSoftClassPtr<UObject>>&, const FStreamableDelegate&)\<close>,
  CacheBox.cpp 111-149.
\<close>

definition RequestAsyncLoad_Classes ::
  "UCacheBox \<Rightarrow> TSoftClassPtr list \<Rightarrow> FStreamableDelegate \<Rightarrow> UCacheBox" where
  "RequestAsyncLoad_Classes box SoftClassArray D =
     (let SoftClassPathTemp =
            map ClassPath (filter (\<lambda>ClassToLoad. \<not> SoftClass_IsNull ClassToLoad) SoftClassArray)
      in if SoftClassPathTemp \<noteq> [] then
           Streamable_RequestAsyncLoad SoftClassPathTemp
             (BindWeakLambda (ClassArrayLambda SoftClassPathTemp D)) box
         else ExecuteIfBound D box)"

section \<open>Creation\<close>

text \<open>
  \<^verbatim>\<open>T* CreateActor(const TSubclassOf<AActor> InClass)\<close>, CacheBox.h 263-291. An actor the
  world spawns is in the world from then on, whatever the registry does with the pointer.
\<close>

definition CreateActor ::
  "Engine \<Rightarrow> StaticClass \<Rightarrow> UCacheBox \<Rightarrow> UObjectPtr \<Rightarrow> UObjectPtr \<times> UCacheBox" where
  "CreateActor e T box InClass =
     (if IsValid e InClass then
        (if GetWorld e then
           (case (case InClass of Some Cls \<Rightarrow> SpawnActor e Cls | None \<Rightarrow> None) of
              Some Actor \<Rightarrow>
                (let box1 = box\<lparr>Spawned := Spawned box @ [Actor]\<rparr>
                 in case Cast e T (Some Actor) of
                      Some CastedActor \<Rightarrow>
                        (Some CastedActor,
                         box1\<lparr>CreatedObjects := TSet_Emplace (Some CastedActor) (CreatedObjects box1)\<rparr>)
                    | None \<Rightarrow> (None, box1))
            | None \<Rightarrow> (None, box))
         else (None, box))
      else (None, box))"

section \<open>Reading a request\<close>

text \<open>
  The caller's delegate a lambda has captured, the lambda a binding holds, and the
  callbacks \<open>ExecuteIfBound\<close> runs on a delegate: none when it is unbound, one otherwise.
\<close>

fun Lambda_delegate :: "CompletionLambda \<Rightarrow> FStreamableDelegate" where
  "Lambda_delegate (ObjectLambda T P D) = D"
| "Lambda_delegate (ClassLambda T P D) = D"
| "Lambda_delegate (ObjectArrayLambda Ps D) = D"
| "Lambda_delegate (ClassArrayLambda Ps D) = D"

fun Binding_lambda :: "StreamableBinding \<Rightarrow> CompletionLambda" where
  "Binding_lambda (BindWeakLambda L) = L"
| "Binding_lambda (BindLambda L) = L"

fun callbacks :: "FStreamableDelegate \<Rightarrow> nat list" where
  "callbacks Unbound = []"
| "callbacks (BoundTo c) = [c]"

definition Request_callbacks :: "StreamableRequest \<Rightarrow> nat list" where
  "Request_callbacks R = callbacks (Lambda_delegate (Binding_lambda (DelegateToCall R)))"

section \<open>Concrete data for the examples\<close>

definition empty_box :: UCacheBox where
  "empty_box =
     \<lparr>CreatedObjects = [], LoadedObjects = [], LoadedSoftObjects = [], LoadedSoftClasses = [],
      Streamable = [], bBeginDestroyed = False, Executed = [], Teardowns = [], Spawned = []\<rparr>"

text \<open>
  An engine with five objects: 1 is a plain object at path \<open>''/Game/A''\<close>, 2 a widget,
  3 an actor, 4 the class of that actor at path \<open>''/Game/BP_C''\<close>, 5 a garbage object.
  Object 1 and class 4 are on disk and in memory; spawning from class 4 gives actor 3.
\<close>

definition demo_engine :: Engine where
  "demo_engine =
     \<lparr>ResolveObject = (\<lambda>p. if p = ''/Game/A'' then Some 1 else if p = ''/Game/BP_C'' then Some 4 else None),
      LoadObject = (\<lambda>p. if p = ''/Game/A'' then Some 1 else if p = ''/Game/BP_C'' then Some 4 else None),
      GetPathName = (\<lambda>Obj. if Obj = 1 then ''/Game/A'' else if Obj = 4 then ''/Game/BP_C'' else ''/Engine/Transient''),
      IsA = (\<lambda>Obj T. (Obj = 2 \<and> T = UUserWidget_Class) \<or> (Obj = 3 \<and> T = AActor_Class)
                      \<or> (Obj = 4 \<and> T = UClass_Class)),
      IsChildOf = (\<lambda>Cls T. Cls = 4 \<and> T = AActor_Class),
      IsValidObject = (\<lambda>Obj. Obj \<noteq> 5),
      GetWorld = True,
      SpawnActor = (\<lambda>Cls. if Cls = 4 then Some 3 else None)\<rparr>"

text \<open>An engine in which nothing is on disk or in memory and nothing is valid.\<close>

definition void_engine :: Engine where
  "void_engine =
     \<lparr>ResolveObject = (\<lambda>p. None), LoadObject = (\<lambda>p. None), GetPathName = (\<lambda>Obj. []),
      IsA = (\<lambda>Obj T. False), IsChildOf = (\<lambda>Cls T. False), IsValidObject = (\<lambda>Obj. False),
      GetWorld = False, SpawnActor = (\<lambda>Cls. None)\<rparr>"

section \<open>Basic facts\<close>

lemmas eval_defs =
  TSet_Emplace_def TSet_Remove_def InstanceOf_def ChildOf_def Cast_def IsValid_def
  Weak_Get_def Weak_IsValid_def SoftObject_IsNull_def SoftObject_Get_def SoftObject_IsValid_def
  SoftObject_LoadSynchronous_def SoftObject_of_def AsClass_def SoftClass_IsNull_def
  SoftClass_Get_def SoftClass_IsValid_def SoftClass_LoadSynchronous_def SoftClass_of_def
  ExecuteIfBound_def Teardown_def LoadSynchronous_Object_def LoadSynchronous_Class_def
  DestroyAllObjects_step_def DestroyAllObjects_def UnloadAllObjects_def DestroyObject_def
  UnloadObject_def UnloadClass_def BeginDestroy_def ConditionalBeginDestroy_this_def
  DestroyBox_def Streamable_RequestAsyncLoad_def ObjectArrayLambda_step_def
  ClassArrayLambda_step_def Binding_ExecuteIfBound_def Streamable_Complete_def
  RequestAsyncLoad_Object_def RequestAsyncLoad_Class_def RequestAsyncLoad_Objects_def
  RequestAsyncLoad_Classes_def CreateActor_def empty_box_def demo_engine_def void_engine_def
  Let_def

lemma TSet_Emplace_member: "x \<in> set (TSet_Emplace x xs)"
  by (simp add: TSet_Emplace_def)

lemma TSet_Remove_absent: "x \<notin> set (TSet_Remove x xs)"
  by (simp add: TSet_Remove_def)

lemma Teardown_fields:
  "CreatedObjects (Teardown a Obj box) = CreatedObjects box"
  "LoadedObjects (Teardown a Obj box) = LoadedObjects box"
  "LoadedSoftObjects (Teardown a Obj box) = LoadedSoftObjects box"
  "LoadedSoftClasses (Teardown a Obj box) = LoadedSoftClasses box"
  "Streamable (Teardown a Obj box) = Streamable box"
  "Executed (Teardown a Obj box) = Executed box"
  "bBeginDestroyed (Teardown a Obj box) = bBeginDestroyed box"
  by (simp_all add: Teardown_def)

lemma DestroyAllObjects_step_fields:
  "CreatedObjects (DestroyAllObjects_step e p box) = CreatedObjects box"
  "LoadedObjects (DestroyAllObjects_step e p box) = LoadedObjects box"
  "LoadedSoftObjects (DestroyAllObjects_step e p box) = LoadedSoftObjects box"
  "LoadedSoftClasses (DestroyAllObjects_step e p box) = LoadedSoftClasses box"
  "Streamable (DestroyAllObjects_step e p box) = Streamable box"
  "Executed (DestroyAllObjects_step e p box) = Executed box"
  "bBeginDestroyed (DestroyAllObjects_step e p box) = bBeginDestroyed box"
  by (simp_all add: DestroyAllObjects_step_def Teardown_fields split: option.splits)

lemma fold_DestroyAllObjects_step_fields:
  "CreatedObjects (fold (DestroyAllObjects_step e) ps box) = CreatedObjects box"
  "LoadedObjects (fold (DestroyAllObjects_step e) ps box) = LoadedObjects box"
  "LoadedSoftObjects (fold (DestroyAllObjects_step e) ps box) = LoadedSoftObjects box"
  "LoadedSoftClasses (fold (DestroyAllObjects_step e) ps box) = LoadedSoftClasses box"
  "Streamable (fold (DestroyAllObjects_step e) ps box) = Streamable box"
  "Executed (fold (DestroyAllObjects_step e) ps box) = Executed box"
  "bBeginDestroyed (fold (DestroyAllObjects_step e) ps box) = bBeginDestroyed box"
  by (induction ps arbitrary: box; simp add: DestroyAllObjects_step_fields)+

section \<open>The two halves of the state\<close>

text \<open>
  C10. The unload operations (\<open>UnloadObject\<close>, \<open>UnloadClass\<close>, \<open>UnloadAllObjects\<close>) leave
  \<open>CreatedObjects\<close> as it is, and the destroy operations (\<open>DestroyObject\<close>,
  \<open>DestroyAllObjects\<close>) leave \<open>LoadedObjects\<close>, \<open>LoadedSoftObjects\<close> and
  \<open>LoadedSoftClasses\<close> as they are, in every state and for every engine.
\<close>

theorem created_loaded_frame:
  "CreatedObjects (UnloadObject e box SoftObject) = CreatedObjects box
   \<and> CreatedObjects (UnloadClass e box SoftClass) = CreatedObjects box
   \<and> CreatedObjects (UnloadAllObjects box) = CreatedObjects box
   \<and> LoadedObjects (DestroyObject e box InObject bPure) = LoadedObjects box
   \<and> LoadedSoftObjects (DestroyObject e box InObject bPure) = LoadedSoftObjects box
   \<and> LoadedSoftClasses (DestroyObject e box InObject bPure) = LoadedSoftClasses box
   \<and> LoadedObjects (DestroyAllObjects e box) = LoadedObjects box
   \<and> LoadedSoftObjects (DestroyAllObjects e box) = LoadedSoftObjects box
   \<and> LoadedSoftClasses (DestroyAllObjects e box) = LoadedSoftClasses box"
proof -
  have unload: "CreatedObjects (UnloadObject e box SoftObject) = CreatedObjects box"
    "CreatedObjects (UnloadClass e box SoftClass) = CreatedObjects box"
    "CreatedObjects (UnloadAllObjects box) = CreatedObjects box"
    by (simp_all add: UnloadObject_def UnloadClass_def UnloadAllObjects_def)
  have one: "LoadedObjects (DestroyObject e box InObject bPure) = LoadedObjects box"
    "LoadedSoftObjects (DestroyObject e box InObject bPure) = LoadedSoftObjects box"
    "LoadedSoftClasses (DestroyObject e box InObject bPure) = LoadedSoftClasses box"
    by (simp_all add: DestroyObject_def Let_def Teardown_fields split: option.splits)
  have all: "LoadedObjects (DestroyAllObjects e box) = LoadedObjects box"
    "LoadedSoftObjects (DestroyAllObjects e box) = LoadedSoftObjects box"
    "LoadedSoftClasses (DestroyAllObjects e box) = LoadedSoftClasses box"
    by (simp_all add: DestroyAllObjects_def fold_DestroyAllObjects_step_fields)
  from unload one all show ?thesis by simp
qed

section \<open>Synchronous load: loaded or unchanged\<close>

text \<open>
  C2. Single-reference \<open>LoadSynchronous\<close>, for an object reference and for a class
  reference: either it returns the object the blocking load resolved, and then that object
  is in \<open>LoadedObjects\<close> and the soft pointer made from it is in the soft-reference set
  of its kind, or it returns \<^verbatim>\<open>nullptr\<close> and the registry is exactly as before the
  call. This holds for every reference, the null one included (which always fails).
\<close>

theorem LoadSynchronous_loaded_or_unchanged:
  "(case LoadSynchronous_Object e T box SoftObject of
      (Some Obj, box') \<Rightarrow>
         LoadObject e (ObjectPath SoftObject) = Some Obj
         \<and> Some Obj \<in> set (LoadedObjects box')
         \<and> SoftObject_of e Obj \<in> set (LoadedSoftObjects box')
    | (None, box') \<Rightarrow> box' = box)
   \<and> (case LoadSynchronous_Class e U box SoftClass of
      (Some Cls, box') \<Rightarrow>
         LoadObject e (ClassPath SoftClass) = Some Cls
         \<and> Some Cls \<in> set (LoadedObjects box')
         \<and> SoftClass_of e Cls \<in> set (LoadedSoftClasses box')
    | (None, box') \<Rightarrow> box' = box)"
proof -
  have obj: "(case LoadSynchronous_Object e T box SoftObject of
      (Some Obj, box') \<Rightarrow>
         LoadObject e (ObjectPath SoftObject) = Some Obj
         \<and> Some Obj \<in> set (LoadedObjects box')
         \<and> SoftObject_of e Obj \<in> set (LoadedSoftObjects box')
    | (None, box') \<Rightarrow> box' = box)"
    by (auto simp: LoadSynchronous_Object_def SoftObject_LoadSynchronous_def Cast_def
        TSet_Emplace_member split: option.splits if_splits)
  have cls: "(case LoadSynchronous_Class e U box SoftClass of
      (Some Cls, box') \<Rightarrow>
         LoadObject e (ClassPath SoftClass) = Some Cls
         \<and> Some Cls \<in> set (LoadedObjects box')
         \<and> SoftClass_of e Cls \<in> set (LoadedSoftClasses box')
    | (None, box') \<Rightarrow> box' = box)"
    by (auto simp: LoadSynchronous_Class_def SoftClass_LoadSynchronous_def AsClass_def Cast_def
        TSet_Emplace_member split: option.splits if_splits)
  from obj cls show ?thesis by simp
qed

text \<open>
  On the example engine: the object at \<open>''/Game/A''\<close> loads and is recorded; the class at
  \<open>''/Game/BP_C''\<close>, an actor class, fails the type check against the widget class and
  leaves the registry untouched.
\<close>

theorem LoadSynchronous_loaded_or_unchanged_witness:
  "LoadSynchronous_Object demo_engine UObject_Class empty_box (TSoftObjectPtr ''/Game/A'')
     = (Some 1, empty_box\<lparr>LoadedSoftObjects := [TSoftObjectPtr ''/Game/A''], LoadedObjects := [Some 1]\<rparr>)
   \<and> LoadSynchronous_Class demo_engine UUserWidget_Class empty_box (TSoftClassPtr ''/Game/BP_C'')
     = (None, empty_box)"
  using LoadSynchronous_loaded_or_unchanged [where e = demo_engine and T = UObject_Class
       and box = empty_box and SoftObject = "TSoftObjectPtr ''/Game/A''"
       and U = UUserWidget_Class and SoftClass = "TSoftClassPtr ''/Game/BP_C''"]
  by (simp add: eval_defs)

section \<open>Destroying: when the member leaves the set\<close>

lemma DestroyAllObjects_step_skip:
  "\<not> IsValid e p \<Longrightarrow> DestroyAllObjects_step e p b = b"
  by (simp add: DestroyAllObjects_step_def)

lemma DestroyAllObjects_step_call:
  "IsValidObject e Obj \<Longrightarrow> \<exists>a. DestroyAllObjects_step e (Some Obj) b = Teardown a Obj b"
  by (auto simp: DestroyAllObjects_step_def IsValid_def Cast_def split: option.splits)

lemma fold_DestroyAllObjects_step_Teardowns:
  "\<exists>calls. Teardowns (fold (DestroyAllObjects_step e) ps b) = Teardowns b @ calls
     \<and> map target calls = [Obj. Some Obj \<leftarrow> ps, IsValidObject e Obj]
     \<and> (\<forall>c \<in> set calls. members_seen c = CreatedObjects b)"
proof (induction ps arbitrary: b)
  case Nil
  show ?case by simp
next
  case (Cons p ps)
  let ?b1 = "DestroyAllObjects_step e p b"
  from Cons.IH [of ?b1] obtain calls where
    calls: "Teardowns (fold (DestroyAllObjects_step e) ps ?b1) = Teardowns ?b1 @ calls"
      "map target calls = [Obj. Some Obj \<leftarrow> ps, IsValidObject e Obj]"
      "\<forall>c \<in> set calls. members_seen c = CreatedObjects ?b1"
    by blast
  have seen: "CreatedObjects ?b1 = CreatedObjects b"
    by (simp add: DestroyAllObjects_step_fields)
  show ?case
  proof (cases "IsValid e p")
    case False
    then have same: "?b1 = b" by (rule DestroyAllObjects_step_skip)
    from False have "[Obj. Some Obj \<leftarrow> p # ps, IsValidObject e Obj]
        = [Obj. Some Obj \<leftarrow> ps, IsValidObject e Obj]"
      by (cases p) (simp_all add: IsValid_def)
    with calls same show ?thesis by auto
  next
    case True
    then obtain Obj where p: "p = Some Obj" and valid: "IsValidObject e Obj"
      by (auto simp: IsValid_def split: option.splits)
    from DestroyAllObjects_step_call [OF valid, of b] p obtain a where
      "?b1 = Teardown a Obj b" by auto
    then have "Teardowns ?b1 =
        Teardowns b @ [\<lparr>action = a, target = Obj, members_seen = CreatedObjects b\<rparr>]"
      by (simp add: Teardown_def)
    with calls seen p valid show ?thesis
      by (intro exI [of _ "\<lparr>action = a, target = Obj, members_seen = CreatedObjects b\<rparr> # calls"])
        simp
  qed
qed

text \<open>
  C3. \<open>DestroyObject\<close> removes the object from \<open>CreatedObjects\<close> before the teardown
  call on it, so code running inside that call finds it absent. \<open>DestroyAllObjects\<close> makes
  the teardown call of every valid member while \<open>CreatedObjects\<close> still holds every
  member, and empties the set only after the last call.
\<close>

theorem destroy_membership_order:
  "(case Weak_Get e InObject of
      Some Obj \<Rightarrow>
        (\<exists>a. Teardowns (DestroyObject e box InObject bPure) =
               Teardowns box @ [\<lparr>action = a, target = Obj,
                                 members_seen = TSet_Remove (Some Obj) (CreatedObjects box)\<rparr>])
        \<and> Some Obj \<notin> set (TSet_Remove (Some Obj) (CreatedObjects box))
        \<and> CreatedObjects (DestroyObject e box InObject bPure)
            = TSet_Remove (Some Obj) (CreatedObjects box)
    | None \<Rightarrow> Teardowns (DestroyObject e box InObject bPure) = Teardowns box)
   \<and> (\<exists>calls. Teardowns (DestroyAllObjects e box) = Teardowns box @ calls
         \<and> map target calls = [Obj. Some Obj \<leftarrow> CreatedObjects box, IsValidObject e Obj]
         \<and> (\<forall>c \<in> set calls. members_seen c = CreatedObjects box))
   \<and> CreatedObjects (DestroyAllObjects e box) = []"
proof -
  have one: "(case Weak_Get e InObject of
      Some Obj \<Rightarrow>
        (\<exists>a. Teardowns (DestroyObject e box InObject bPure) =
               Teardowns box @ [\<lparr>action = a, target = Obj,
                                 members_seen = TSet_Remove (Some Obj) (CreatedObjects box)\<rparr>])
        \<and> Some Obj \<notin> set (TSet_Remove (Some Obj) (CreatedObjects box))
        \<and> CreatedObjects (DestroyObject e box InObject bPure)
            = TSet_Remove (Some Obj) (CreatedObjects box)
    | None \<Rightarrow> Teardowns (DestroyObject e box InObject bPure) = Teardowns box)"
    by (auto simp: DestroyObject_def Weak_IsValid_def Let_def Teardown_def Cast_def
        TSet_Remove_absent split: option.splits)
  have all: "\<exists>calls. Teardowns (DestroyAllObjects e box) = Teardowns box @ calls
         \<and> map target calls = [Obj. Some Obj \<leftarrow> CreatedObjects box, IsValidObject e Obj]
         \<and> (\<forall>c \<in> set calls. members_seen c = CreatedObjects box)"
    using fold_DestroyAllObjects_step_Teardowns [of e "CreatedObjects box" box]
    by (simp add: DestroyAllObjects_def)
  have emp: "CreatedObjects (DestroyAllObjects e box) = []"
    by (simp add: DestroyAllObjects_def)
  from one all emp show ?thesis by blast
qed

text \<open>
  With a plain object 1 and a widget 2 created: destroying the widget alone tears it down
  with only object 1 left in the set; destroying all tears both down with both in the set.
\<close>

theorem destroy_membership_order_witness:
  "Teardowns (DestroyObject demo_engine (empty_box\<lparr>CreatedObjects := [Some 1, Some 2]\<rparr>) (Some 2) False)
     = [\<lparr>action = RemoveFromParent, target = 2, members_seen = [Some 1]\<rparr>]
   \<and> Teardowns (DestroyAllObjects demo_engine (empty_box\<lparr>CreatedObjects := [Some 1, Some 2]\<rparr>))
     = [\<lparr>action = ConditionalBeginDestroy, target = 1, members_seen = [Some 1, Some 2]\<rparr>,
        \<lparr>action = RemoveFromParent, target = 2, members_seen = [Some 1, Some 2]\<rparr>]"
  using destroy_membership_order [where e = demo_engine and InObject = "Some 2" and bPure = False
      and box = "empty_box\<lparr>CreatedObjects := [Some 1, Some 2]\<rparr>"]
  by (simp add: eval_defs)

text \<open>
  \<open>DestroyAllObjects\<close> on a registry whose only created object is the plain object 1:
  the teardown call on object 1 is made while object 1 is still a member.
\<close>

theorem DestroyAllObjects_member_at_teardown:
  "Teardowns (DestroyAllObjects demo_engine (empty_box\<lparr>CreatedObjects := [Some 1]\<rparr>))
     = [\<lparr>action = ConditionalBeginDestroy, target = 1, members_seen = [Some 1]\<rparr>]"
  by (simp add: eval_defs)

section \<open>Unloading a class\<close>

lemma UnloadClass_LoadedObjects: "LoadedObjects (UnloadClass e box InObject) = LoadedObjects box"
  by (simp add: UnloadClass_def)

lemma UnloadClass_LoadedSoftClasses:
  "SoftClass_IsValid e UObject_Class InObject \<Longrightarrow>
     InObject \<notin> set (LoadedSoftClasses (UnloadClass e box InObject))"
  by (simp add: UnloadClass_def TSet_Remove_absent)

lemma UnloadClass_unresolved:
  "\<not> SoftClass_IsValid e UObject_Class InObject \<Longrightarrow> UnloadClass e box InObject = box"
  by (simp add: UnloadClass_def)

lemma UnloadObject_removes_both:
  "SoftObject_Get e UObject_Class InObject = Some Obj \<Longrightarrow>
     Some Obj \<notin> set (LoadedObjects (UnloadObject e box InObject))
     \<and> InObject \<notin> set (LoadedSoftObjects (UnloadObject e box InObject))"
  by (simp add: UnloadObject_def SoftObject_IsValid_def TSet_Remove_absent)

text \<open>
  C4. The class at \<open>''/Game/BP_C''\<close> is loaded synchronously, which records it in
  \<open>LoadedSoftClasses\<close> and in \<open>LoadedObjects\<close>; the reference is valid; \<open>UnloadClass\<close>
  on it then removes the entry of \<open>LoadedSoftClasses\<close> and leaves class 4 in
  \<open>LoadedObjects\<close>.
\<close>

theorem UnloadClass_leaves_LoadedObjects:
  "LoadSynchronous_Class demo_engine AActor_Class empty_box (TSoftClassPtr ''/Game/BP_C'')
     = (Some 4, empty_box\<lparr>LoadedSoftClasses := [TSoftClassPtr ''/Game/BP_C''], LoadedObjects := [Some 4]\<rparr>)
   \<and> SoftClass_IsValid demo_engine UObject_Class (TSoftClassPtr ''/Game/BP_C'')
   \<and> UnloadClass demo_engine
        (empty_box\<lparr>LoadedSoftClasses := [TSoftClassPtr ''/Game/BP_C''], LoadedObjects := [Some 4]\<rparr>)
        (TSoftClassPtr ''/Game/BP_C'')
     = empty_box\<lparr>LoadedSoftClasses := [], LoadedObjects := [Some 4]\<rparr>"
  by (simp add: eval_defs)

section \<open>What the completion lambdas record\<close>

lemma ObjectLambda_records:
  "Cast e T (SoftObject_Get e T SoftObject) = Some Obj \<Longrightarrow>
     Some Obj \<in> set (LoadedObjects (Lambda_body e (ObjectLambda T SoftObject D) box))
     \<and> SoftObject_of e Obj \<in> set (LoadedSoftObjects (Lambda_body e (ObjectLambda T SoftObject D) box))"
  by (cases D) (simp_all add: ExecuteIfBound_def TSet_Emplace_member)

lemma ClassLambda_LoadedObjects:
  "LoadedObjects (Lambda_body e (ClassLambda T SoftClass D) box) = LoadedObjects box"
  by (cases D) (simp_all add: ExecuteIfBound_def split: option.splits)

text \<open>
  C5. A single class reference to \<open>''/Game/BP_C''\<close> is requested asynchronously with
  \<open>T\<close> the actor class, and the streaming service completes while the registry is alive.
  The reference resolves to class 4; the lambda records the soft reference in
  \<open>LoadedSoftClasses\<close>, runs callback 7, and leaves \<open>LoadedObjects\<close> empty. The same
  reference requested as an array of one records class 4 in \<open>LoadedObjects\<close> too.
\<close>

theorem ClassLambda_skips_LoadedObjects:
  "SoftClass_Get demo_engine AActor_Class (TSoftClassPtr ''/Game/BP_C'') = Some 4
   \<and> Streamable_Complete demo_engine True
       (RequestAsyncLoad_Class AActor_Class empty_box (TSoftClassPtr ''/Game/BP_C'') (BoundTo 7))
     = empty_box\<lparr>LoadedSoftClasses := [TSoftClassPtr ''/Game/BP_C''], Executed := [7]\<rparr>
   \<and> Streamable_Complete demo_engine True
       (RequestAsyncLoad_Classes empty_box [TSoftClassPtr ''/Game/BP_C''] (BoundTo 7))
     = empty_box\<lparr>LoadedSoftClasses := [TSoftClassPtr ''/Game/BP_C''], LoadedObjects := [Some 4],
                  Executed := [7]\<rparr>"
  by (simp add: eval_defs)

section \<open>A batch with nothing to load\<close>

text \<open>
  C6. When every reference of the array is null (the empty array included),
  \<open>RequestAsyncLoad\<close> returns the registry with the caller's callback executed and
  nothing else changed: no request is in flight that was not before, and the four
  membership sets are as they were. With an unbound delegate nothing changes at all.
\<close>

theorem RequestAsyncLoad_all_null:
  assumes "\<forall>P \<in> set SoftObjectArray. SoftObject_IsNull P"
    and "\<forall>P \<in> set SoftClassArray. SoftClass_IsNull P"
  shows "RequestAsyncLoad_Objects box SoftObjectArray (BoundTo c) = box\<lparr>Executed := Executed box @ [c]\<rparr>
    \<and> RequestAsyncLoad_Classes box SoftClassArray (BoundTo c) = box\<lparr>Executed := Executed box @ [c]\<rparr>
    \<and> RequestAsyncLoad_Objects box SoftObjectArray Unbound = box
    \<and> RequestAsyncLoad_Classes box SoftClassArray Unbound = box"
proof -
  from assms(1) have o: "filter (\<lambda>P. \<not> SoftObject_IsNull P) SoftObjectArray = []"
    by (simp add: filter_empty_conv)
  from assms(2) have k: "filter (\<lambda>P. \<not> SoftClass_IsNull P) SoftClassArray = []"
    by (simp add: filter_empty_conv)
  from o k show ?thesis
    by (simp add: RequestAsyncLoad_Objects_def RequestAsyncLoad_Classes_def ExecuteIfBound_def)
qed

text \<open>An array of two null object references, and the empty array of class references.\<close>

theorem RequestAsyncLoad_all_null_witness:
  "RequestAsyncLoad_Objects empty_box [TSoftObjectPtr [], TSoftObjectPtr []] (BoundTo 7)
     = empty_box\<lparr>Executed := [7]\<rparr>
   \<and> RequestAsyncLoad_Classes empty_box [] (BoundTo 7) = empty_box\<lparr>Executed := [7]\<rparr>"
proof -
  have o: "\<forall>P \<in> set [TSoftObjectPtr [], TSoftObjectPtr []]. SoftObject_IsNull P"
    by (simp add: SoftObject_IsNull_def)
  have k: "\<forall>P \<in> set ([] :: TSoftClassPtr list). SoftClass_IsNull P"
    by simp
  from RequestAsyncLoad_all_null [OF o k, of empty_box 7] show ?thesis
    by (simp add: empty_box_def)
qed

section \<open>An actor of the wrong type\<close>

text \<open>
  C8. When the class handle is valid, there is a world, the world spawns an actor from the
  class and the cast of that actor to \<open>T\<close> fails, \<open>CreateActor\<close> returns
  \<^verbatim>\<open>nullptr\<close>; the actor is in the world; \<open>CreatedObjects\<close> is unchanged and no
  teardown call is made on the actor or on anything else.
\<close>

theorem CreateActor_cast_failure:
  assumes "IsValidObject e Cls" and "GetWorld e" and "SpawnActor e Cls = Some Actor"
    and "Cast e T (Some Actor) = None"
  shows "CreateActor e T box (Some Cls) = (None, box\<lparr>Spawned := Spawned box @ [Actor]\<rparr>)"
  using assms by (simp add: CreateActor_def IsValid_def Let_def)

text \<open>Class 4 spawns actor 3, which is not a widget.\<close>

theorem CreateActor_cast_failure_witness:
  "CreateActor demo_engine UUserWidget_Class empty_box (Some 4) = (None, empty_box\<lparr>Spawned := [3]\<rparr>)"
proof -
  have a: "IsValidObject demo_engine 4" "GetWorld demo_engine" "SpawnActor demo_engine 4 = Some 3"
    "Cast demo_engine UUserWidget_Class (Some 3) = None"
    by (simp_all add: demo_engine_def Cast_def InstanceOf_def)
  from CreateActor_cast_failure [OF a, of empty_box] show ?thesis
    by (simp add: empty_box_def)
qed

section \<open>Destroying the registry twice\<close>

lemma BeginDestroy_drained:
  assumes "CreatedObjects box = []" "LoadedObjects box = []" "LoadedSoftObjects box = []"
    "LoadedSoftClasses box = []"
  shows "BeginDestroy e box = box"
  using assms by (simp add: BeginDestroy_def DestroyAllObjects_def UnloadAllObjects_def)

text \<open>
  C9. On a registry not yet destroyed, \<open>DestroyBox\<close> reports \<^verbatim>\<open>true\<close> and leaves the
  four membership sets empty. A second \<open>DestroyBox\<close>, whatever the engine answers by
  then, reports \<^verbatim>\<open>false\<close> and returns the registry as the first call left it: no
  teardown call is added and the sets stay empty. Even \<open>BeginDestroy\<close> run again on that
  registry changes nothing.
\<close>

theorem DestroyBox_idempotent:
  assumes "\<not> bBeginDestroyed box"
  shows "fst (DestroyBox e box)
    \<and> CreatedObjects (snd (DestroyBox e box)) = []
    \<and> LoadedObjects (snd (DestroyBox e box)) = []
    \<and> LoadedSoftObjects (snd (DestroyBox e box)) = []
    \<and> LoadedSoftClasses (snd (DestroyBox e box)) = []
    \<and> DestroyBox e' (snd (DestroyBox e box)) = (False, snd (DestroyBox e box))
    \<and> BeginDestroy e' (snd (DestroyBox e box)) = snd (DestroyBox e box)"
proof -
  let ?box1 = "snd (DestroyBox e box)"
  from assms have box1: "?box1 = BeginDestroy e (box\<lparr>bBeginDestroyed := True\<rparr>)"
    and r1: "fst (DestroyBox e box)"
    by (simp_all add: DestroyBox_def ConditionalBeginDestroy_this_def)
  have sets: "CreatedObjects ?box1 = []" "LoadedObjects ?box1 = []" "LoadedSoftObjects ?box1 = []"
    "LoadedSoftClasses ?box1 = []"
    by (simp_all add: box1 BeginDestroy_def DestroyAllObjects_def UnloadAllObjects_def)
  have flag: "bBeginDestroyed ?box1"
    by (simp add: box1 BeginDestroy_def DestroyAllObjects_def UnloadAllObjects_def
        fold_DestroyAllObjects_step_fields)
  from flag have again: "DestroyBox e' ?box1 = (False, ?box1)"
    by (simp add: DestroyBox_def ConditionalBeginDestroy_this_def)
  from sets have noop: "BeginDestroy e' ?box1 = ?box1"
    by (rule BeginDestroy_drained)
  from r1 sets again noop show ?thesis by simp
qed

text \<open>
  A registry holding widget 2 and the loaded class 4: the first \<open>DestroyBox\<close> detaches the
  widget and drains the sets, the second one returns the same registry.
\<close>

theorem DestroyBox_idempotent_witness:
  "DestroyBox demo_engine (empty_box\<lparr>CreatedObjects := [Some 2], LoadedObjects := [Some 4],
       LoadedSoftClasses := [TSoftClassPtr ''/Game/BP_C'']\<rparr>)
     = (True, empty_box\<lparr>bBeginDestroyed := True,
          Teardowns := [\<lparr>action = RemoveFromParent, target = 2, members_seen = [Some 2]\<rparr>]\<rparr>)
   \<and> DestroyBox demo_engine (empty_box\<lparr>bBeginDestroyed := True,
          Teardowns := [\<lparr>action = RemoveFromParent, target = 2, members_seen = [Some 2]\<rparr>]\<rparr>)
     = (False, empty_box\<lparr>bBeginDestroyed := True,
          Teardowns := [\<lparr>action = RemoveFromParent, target = 2, members_seen = [Some 2]\<rparr>]\<rparr>)"
proof -
  let ?box = "empty_box\<lparr>CreatedObjects := [Some 2], LoadedObjects := [Some 4],
       LoadedSoftClasses := [TSoftClassPtr ''/Game/BP_C'']\<rparr>"
  have h: "\<not> bBeginDestroyed ?box" by (simp add: empty_box_def)
  have first: "DestroyBox demo_engine ?box = (True, empty_box\<lparr>bBeginDestroyed := True,
          Teardowns := [\<lparr>action = RemoveFromParent, target = 2, members_seen = [Some 2]\<rparr>]\<rparr>)"
    by (simp add: eval_defs)
  from DestroyBox_idempotent [OF h, of demo_engine demo_engine] first show ?thesis
    by simp
qed

section \<open>Completion of an array request\<close>

lemma ExecuteIfBound_Executed: "Executed (ExecuteIfBound D b) = Executed b @ callbacks D"
  by (cases D) (simp_all add: ExecuteIfBound_def)

lemma ExecuteIfBound_Streamable: "Streamable (ExecuteIfBound D b) = Streamable b"
  by (cases D) (simp_all add: ExecuteIfBound_def)

lemma ArrayLambda_step_fields:
  "Executed (ObjectArrayLambda_step e p b) = Executed b"
  "Executed (ClassArrayLambda_step e p b) = Executed b"
  by (simp_all add: ObjectArrayLambda_step_def ClassArrayLambda_step_def split: option.splits)

lemma fold_ArrayLambda_step_fields:
  "Executed (fold (ObjectArrayLambda_step e) ps b) = Executed b"
  "Executed (fold (ClassArrayLambda_step e) ps b) = Executed b"
  by (induction ps arbitrary: b; simp add: ArrayLambda_step_fields)+

lemma Lambda_body_Executed:
  "Executed (Lambda_body e L b) = Executed b @ callbacks (Lambda_delegate L)"
  by (cases L)
    (simp_all add: ExecuteIfBound_Executed fold_ArrayLambda_step_fields split: option.splits)

lemma Binding_ExecuteIfBound_Executed:
  "Executed (Binding_ExecuteIfBound e True D b)
     = Executed b @ callbacks (Lambda_delegate (Binding_lambda D))"
  by (cases D) (simp_all add: Binding_ExecuteIfBound_def Lambda_body_Executed)

lemma fold_Binding_Executed:
  "Executed (fold (\<lambda>R. Binding_ExecuteIfBound e True (DelegateToCall R)) rs b)
     = Executed b @ concat (map Request_callbacks rs)"
  by (induction rs arbitrary: b)
    (simp_all add: Binding_ExecuteIfBound_Executed Request_callbacks_def)

lemma Streamable_Complete_Executed:
  "Executed (Streamable_Complete e True box)
     = Executed box @ concat (map Request_callbacks (Streamable box))"
  by (simp add: Streamable_Complete_def fold_Binding_Executed)

lemma completed_after_request:
  assumes "box' = Streamable_RequestAsyncLoad Ps (BindWeakLambda L) box \<or> box' = ExecuteIfBound D box"
    and "Lambda_delegate L = D"
  shows "count_list (Executed (Streamable_Complete e True box')) x
     = count_list (Executed (Streamable_Complete e True box)) x + count_list (callbacks D) x"
  using assms
  by (auto simp: Streamable_Complete_Executed Streamable_RequestAsyncLoad_def Request_callbacks_def
      ExecuteIfBound_Executed ExecuteIfBound_Streamable)

text \<open>
  C1. An array of soft references, of objects or of classes and of any length, is
  requested with a delegate bound to callback \<open>c\<close>; then the streaming service signals
  completion of everything in flight while the registry is alive. Whatever the engine
  resolves at that moment, callback \<open>c\<close> has run exactly once more than it would have
  without the request, and every other callback exactly as often as without it. This
  covers the empty array, the array of null references only, and the array in which no
  path resolves.
\<close>

theorem RequestAsyncLoad_callback_exactly_once:
  "count_list (Executed (Streamable_Complete e True
       (RequestAsyncLoad_Objects box SoftObjectArray (BoundTo c)))) x
     = count_list (Executed (Streamable_Complete e True box)) x + (if x = c then 1 else 0)
   \<and> count_list (Executed (Streamable_Complete e True
       (RequestAsyncLoad_Classes box SoftClassArray (BoundTo c)))) x
     = count_list (Executed (Streamable_Complete e True box)) x + (if x = c then 1 else 0)"
proof -
  let ?ops = "map ObjectPath (filter (\<lambda>P. \<not> SoftObject_IsNull P) SoftObjectArray)"
  let ?cps = "map ClassPath (filter (\<lambda>P. \<not> SoftClass_IsNull P) SoftClassArray)"
  have o: "count_list (Executed (Streamable_Complete e True
       (RequestAsyncLoad_Objects box SoftObjectArray (BoundTo c)))) x
     = count_list (Executed (Streamable_Complete e True box)) x + count_list (callbacks (BoundTo c)) x"
    by (rule completed_after_request [where L = "ObjectArrayLambda ?ops (BoundTo c)" and Ps = ?ops])
      (simp_all add: RequestAsyncLoad_Objects_def Let_def)
  have k: "count_list (Executed (Streamable_Complete e True
       (RequestAsyncLoad_Classes box SoftClassArray (BoundTo c)))) x
     = count_list (Executed (Streamable_Complete e True box)) x + count_list (callbacks (BoundTo c)) x"
    by (rule completed_after_request [where L = "ClassArrayLambda ?cps (BoundTo c)" and Ps = ?cps])
      (simp_all add: RequestAsyncLoad_Classes_def Let_def)
  from o k show ?thesis by simp
qed


text \<open>
  In the engine where nothing resolves: one valid and one null object reference, and the
  empty array of class references; callback 7 runs once in each case.
\<close>

theorem RequestAsyncLoad_callback_exactly_once_witness:
  "Executed (Streamable_Complete void_engine True
       (RequestAsyncLoad_Objects empty_box [TSoftObjectPtr ''/Game/A'', TSoftObjectPtr []] (BoundTo 7)))
     = [7]
   \<and> Executed (Streamable_Complete void_engine True
       (RequestAsyncLoad_Classes empty_box [] (BoundTo 7)))
     = [7]"
  using RequestAsyncLoad_callback_exactly_once [where e = void_engine and box = empty_box and c = 7
      and x = 7 and SoftObjectArray = "[TSoftObjectPtr ''/Game/A'', TSoftObjectPtr []]"
      and SoftClassArray = "[]"]
  by (simp add: eval_defs)

section \<open>Completion after the registry is gone\<close>

text \<open>
  Whether the weak pointer to the registry is still valid when a request completes is the
  engine's answer (\<open>this_valid\<close>). \<^verbatim>\<open>DestroyBox\<close> does not decide it:
  \<^verbatim>\<open>ConditionalBeginDestroy\<close> sets \<^verbatim>\<open>RF_BeginDestroyed\<close> and runs
  \<^verbatim>\<open>BeginDestroy\<close>, which drains the sets; it does not make the object garbage and does
  not touch the requests in flight. The weak pointer ends when the object is collected.
\<close>

lemma Streamable_Complete_dropped:
  "Streamable_Complete e False (Streamable_RequestAsyncLoad Ps (BindWeakLambda L) box)
     = Streamable_Complete e False box"
  by (simp add: Streamable_Complete_def Streamable_RequestAsyncLoad_def Binding_ExecuteIfBound_def)

lemma DestroyBox_Streamable: "Streamable (snd (DestroyBox e box)) = Streamable box"
  by (simp add: DestroyBox_def ConditionalBeginDestroy_this_def BeginDestroy_def
      UnloadAllObjects_def DestroyAllObjects_def fold_DestroyAllObjects_step_fields)

text \<open>
  C7. A request that goes in flight (a non-null single reference, or an array with at
  least one non-null reference; objects or classes) and completes when the weak pointer
  to the registry is no longer valid leaves everything as if the request had never been
  made: the lambda does not run, no set is written and the caller's delegate is not
  executed. With nothing else in flight, the state after completion is the state before
  the request. \<open>DestroyBox\<close> by itself drops nothing: the requests in flight before it
  are in flight after it.
\<close>

theorem weak_binding_request_dropped:
  assumes "\<not> SoftObject_IsNull SoftObject" and "\<not> SoftClass_IsNull SoftClass"
    and "\<exists>P \<in> set SoftObjectArray. \<not> SoftObject_IsNull P"
    and "\<exists>P \<in> set SoftClassArray. \<not> SoftClass_IsNull P"
  shows "Streamable_Complete e False (RequestAsyncLoad_Object T box SoftObject D)
           = Streamable_Complete e False box
    \<and> Streamable_Complete e False (RequestAsyncLoad_Class U box SoftClass D)
           = Streamable_Complete e False box
    \<and> Streamable_Complete e False (RequestAsyncLoad_Objects box SoftObjectArray D)
           = Streamable_Complete e False box
    \<and> Streamable_Complete e False (RequestAsyncLoad_Classes box SoftClassArray D)
           = Streamable_Complete e False box
    \<and> (Streamable box = [] \<longrightarrow> Streamable_Complete e False box = box)
    \<and> Streamable (snd (DestroyBox e box)) = Streamable box"
proof -
  from assms(3) have o: "filter (\<lambda>P. \<not> SoftObject_IsNull P) SoftObjectArray \<noteq> []"
    by (simp add: filter_empty_conv)
  from assms(4) have k: "filter (\<lambda>P. \<not> SoftClass_IsNull P) SoftClassArray \<noteq> []"
    by (simp add: filter_empty_conv)
  have idle: "Streamable box = [] \<longrightarrow> Streamable_Complete e False box = box"
    by (simp add: Streamable_Complete_def)
  have kept: "Streamable (snd (DestroyBox e box)) = Streamable box"
    by (rule DestroyBox_Streamable)
  from assms(1,2) o k idle kept show ?thesis
    by (simp add: RequestAsyncLoad_Object_def RequestAsyncLoad_Class_def RequestAsyncLoad_Objects_def
        RequestAsyncLoad_Classes_def Let_def Streamable_Complete_dropped)
qed

text \<open>
  The four kinds of request on the example engine, where both paths resolve: completed
  with the weak pointer invalid, nothing is recorded and callback 7 does not run; the same
  array request completed with the weak pointer valid records object 1 and runs the
  callback.
\<close>

theorem weak_binding_request_dropped_witness:
  "Streamable_Complete demo_engine False
       (RequestAsyncLoad_Object UObject_Class empty_box (TSoftObjectPtr ''/Game/A'') (BoundTo 7))
     = empty_box
   \<and> Streamable_Complete demo_engine False
       (RequestAsyncLoad_Class AActor_Class empty_box (TSoftClassPtr ''/Game/BP_C'') (BoundTo 7))
     = empty_box
   \<and> Streamable_Complete demo_engine False
       (RequestAsyncLoad_Objects empty_box [TSoftObjectPtr [], TSoftObjectPtr ''/Game/A''] (BoundTo 7))
     = empty_box
   \<and> Streamable_Complete demo_engine False
       (RequestAsyncLoad_Classes empty_box [TSoftClassPtr ''/Game/BP_C''] (BoundTo 7))
     = empty_box
   \<and> Streamable_Complete demo_engine True
       (RequestAsyncLoad_Objects empty_box [TSoftObjectPtr [], TSoftObjectPtr ''/Game/A''] (BoundTo 7))
     = empty_box\<lparr>LoadedSoftObjects := [TSoftObjectPtr ''/Game/A''], LoadedObjects := [Some 1],
                  Executed := [7]\<rparr>"
proof -
  have a: "\<not> SoftObject_IsNull (TSoftObjectPtr ''/Game/A'')"
    "\<not> SoftClass_IsNull (TSoftClassPtr ''/Game/BP_C'')"
    "\<exists>P \<in> set [TSoftObjectPtr [], TSoftObjectPtr ''/Game/A'']. \<not> SoftObject_IsNull P"
    "\<exists>P \<in> set [TSoftClassPtr ''/Game/BP_C'']. \<not> SoftClass_IsNull P"
    by (simp_all add: SoftObject_IsNull_def SoftClass_IsNull_def)
  have idle: "Streamable empty_box = []" by (simp add: empty_box_def)
  have alive: "Streamable_Complete demo_engine True
       (RequestAsyncLoad_Objects empty_box [TSoftObjectPtr [], TSoftObjectPtr ''/Game/A''] (BoundTo 7))
     = empty_box\<lparr>LoadedSoftObjects := [TSoftObjectPtr ''/Game/A''], LoadedObjects := [Some 1],
                  Executed := [7]\<rparr>"
    by (simp add: eval_defs)
  from weak_binding_request_dropped [OF a, where e = demo_engine and T = UObject_Class
      and U = AActor_Class and box = empty_box and D = "BoundTo 7"] idle alive
  show ?thesis by simp
qed

text \<open>
  An array request for \<open>''/Game/A''\<close> is in flight when \<open>DestroyBox\<close> runs: the
  registry is flagged and drained, and the request is still in flight. The object has not
  been collected, so the weak pointer is valid when the streaming service completes: the
  lambda runs, writes object 1 into \<open>LoadedObjects\<close> and \<open>LoadedSoftObjects\<close> of the
  destroyed registry, and runs callback 7.
\<close>

theorem closure_runs_after_DestroyBox:
  "DestroyBox demo_engine (RequestAsyncLoad_Objects empty_box [TSoftObjectPtr ''/Game/A''] (BoundTo 7))
     = (True, empty_box\<lparr>bBeginDestroyed := True,
          Streamable := [\<lparr>TargetsToStream = [''/Game/A''],
             DelegateToCall = BindWeakLambda (ObjectArrayLambda [''/Game/A''] (BoundTo 7))\<rparr>]\<rparr>)
   \<and> Streamable_Complete demo_engine True
       (snd (DestroyBox demo_engine
          (RequestAsyncLoad_Objects empty_box [TSoftObjectPtr ''/Game/A''] (BoundTo 7))))
     = empty_box\<lparr>bBeginDestroyed := True, LoadedSoftObjects := [TSoftObjectPtr ''/Game/A''],
          LoadedObjects := [Some 1], Executed := [7]\<rparr>"
  by (simp add: eval_defs)

end
